theory Spec2Isabelle
  imports Main "HOL-Library.Sublist" "HOL-Library.Char_ord" "HOL-Library.List_Lexorder"
begin

section \<open>update\_counts.py: the per-commit metric cache\<close>

text \<open>
  A shallow embedding of \<^verbatim>\<open>src/update_counts.py\<close>. Python strings are
  \<^typ>\<open>string\<close> (7-bit text), Python integers are \<^typ>\<open>int\<close>, a raised
  exception is a value of type \<open>error\<close>. The git process, the durable files and
  the log of process invocations are an explicit world that every effectful
  function takes and returns.
\<close>

subsection \<open>Constants\<close>

definition SERENITY_DIR :: string where
  "SERENITY_DIR = ''serenity/''"

definition FILENAME_CACHE :: string where
  "FILENAME_CACHE = ''cache_v4.json''"

definition SAVE_CACHE_INV_FREQ :: nat where
  "SAVE_CACHE_INV_FREQ = 200"

subsection \<open>Strings\<close>

definition NL :: char where
  "NL = CHR 0x0A"

definition DQ :: char where
  "DQ = CHR 0x22"

text \<open>\<^verbatim>\<open>s.split(sep)\<close> for a one-character separator: one piece more than
  there are separators, never the empty list.\<close>

fun split_on :: "char \<Rightarrow> string \<Rightarrow> string list" where
  "split_on sep [] = [[]]"
| "split_on sep (c # cs) =
     (if c = sep then [] # split_on sep cs
      else (case split_on sep cs of
              [] \<Rightarrow> [[c]]
            | p # ps \<Rightarrow> (c # p) # ps))"

text \<open>\<^verbatim>\<open>sep.join(xs)\<close>.\<close>

fun join_str :: "string \<Rightarrow> string list \<Rightarrow> string" where
  "join_str sep [] = []"
| "join_str sep [x] = x"
| "join_str sep (x # y # ys) = x @ sep @ join_str sep (y # ys)"

text \<open>\<^verbatim>\<open>str(n)\<close> for a natural number and for an integer.\<close>

fun str_nat :: "nat \<Rightarrow> string" where
  "str_nat n =
     (if n < 10 then [''0123456789'' ! n]
      else str_nat (n div 10) @ [''0123456789'' ! (n mod 10)])"

definition str_int :: "int \<Rightarrow> string" where
  "str_int i = (if i < 0 then CHR ''-'' # str_nat (nat (- i)) else str_nat (nat i))"

subsection \<open>The world: processes and files\<close>

datatype error = CalledProcessError | AssertionError | TimestampOutOfRange

record proc_result =
  returncode :: int
  stdout :: string

text \<open>
  The collaborators the script calls: \<open>exec\<close> runs a command line on the
  working tree and gives the completed process and the tree it leaves;
  \<open>strftime\<close> is \<^verbatim>\<open>datetime.datetime.fromtimestamp(date).strftime(...)\<close>,
  which raises for a time stamp outside the supported range.
\<close>

record 'w env =
  exec :: "string list \<Rightarrow> 'w \<Rightarrow> proc_result \<times> 'w"
  strftime :: "int \<Rightarrow> string option"

text \<open>
  The state outside the Python heap: the files on durable storage by name, the
  checked-out working tree, and the command line of every process run so far.
\<close>

record 'w world =
  disk :: "string \<rightharpoonup> string"
  worktree :: 'w
  calls :: "string list list"

definition subprocess_run :: "'w env \<Rightarrow> string list \<Rightarrow> 'w world \<Rightarrow> proc_result \<times> 'w world" where
  "subprocess_run env argv w =
     (let (result, tree) = exec env argv (worktree w)
      in (result, w\<lparr>worktree := tree, calls := calls w @ [argv]\<rparr>))"

subsection \<open>The cache and its file\<close>

text \<open>
  \<^verbatim>\<open>Cache = dict[str, tuple[int, int, int]]\<close>: a Python dictionary keeps its
  keys in insertion order and holds each key once, so it is an association
  list whose keys are distinct; \<^verbatim>\<open>len(cache)\<close> is its length.
\<close>

type_synonym Cache = "(string \<times> int \<times> int \<times> int) list"

text \<open>\<^verbatim>\<open>cache[k] = v\<close>: replaces the value of a present key in place, appends an
  absent one.\<close>

fun dict_set :: "string \<Rightarrow> 'v \<Rightarrow> (string \<times> 'v) list \<Rightarrow> (string \<times> 'v) list" where
  "dict_set k v [] = [(k, v)]"
| "dict_set k v (kv # kvs) =
     (if fst kv = k then (k, v) # kvs else kv # dict_set k v kvs)"

text \<open>
  \<^verbatim>\<open>json.dump(cache, f, sort_keys=True, separators=(",", ":"), indent=0)\<close>. With
  an indent of zero every item starts a new line. Keys are commit identifiers
  (hexadecimal), which are written between double quotes as they are.
\<close>

definition json_entry :: "string \<times> int \<times> int \<times> int \<Rightarrow> string" where
  "json_entry e =
     (case e of (k, a, b, c) \<Rightarrow>
        [DQ] @ k @ [DQ] @ '':['' @ [NL] @ str_int a @ '','' @ [NL] @ str_int b @ '','' @ [NL]
        @ str_int c @ [NL] @ '']'')"

definition json_dump :: "Cache \<Rightarrow> string" where
  "json_dump cache =
     (if cache = [] then ''{}''
      else ''{'' @ [NL] @ join_str ('','' @ [NL]) (map json_entry (sort_key fst cache))
           @ [NL] @ ''}'')"

text \<open>
  \<^verbatim>\<open>save_cache\<close>: \<^verbatim>\<open>open(FILENAME_CACHE, "w")\<close> truncates the file, then the
  serialization is written and the file closed. \<open>save_cache_steps\<close> lists the
  states of durable storage the call goes through, in order.
\<close>

definition save_cache_steps :: "Cache \<Rightarrow> (string \<rightharpoonup> string) \<Rightarrow> (string \<rightharpoonup> string) list" where
  "save_cache_steps cache fs =
     [fs(FILENAME_CACHE \<mapsto> []), fs(FILENAME_CACHE \<mapsto> json_dump cache)]"

definition save_cache :: "Cache \<Rightarrow> 'w world \<Rightarrow> 'w world" where
  "save_cache cache w = w\<lparr>disk := last (save_cache_steps cache (disk w))\<rparr>"

subsection \<open>The three scans\<close>

definition count_fixmes_here :: "'w env \<Rightarrow> 'w world \<Rightarrow> (error + int) \<times> 'w world" where
  "count_fixmes_here env w =
     (let (result, w') =
            subprocess_run env [''git'', ''-C'', SERENITY_DIR, ''grep'', ''-IiEh'', ''FIXME|TODO''] w
      in if returncode result \<notin> set [0, 1] then (Inl AssertionError, w')
         else let lines = split_on NL (stdout result)
              in if last lines \<noteq> [] then (Inl AssertionError, w')
                 else (Inr (int (length lines)), w'))"

definition count_deprecated_strings_here :: "'w env \<Rightarrow> 'w world \<Rightarrow> (error + int) \<times> 'w world" where
  "count_deprecated_strings_here env w =
     (let (result, w') =
            subprocess_run env [''git'', ''-C'', SERENITY_DIR, ''grep'', ''-IEh'', ''DeprecatedFlyString''] w
      in if returncode result \<notin> set [0, 1] then (Inl AssertionError, w')
         else let lines = split_on NL (stdout result)
              in if last lines \<noteq> [] then (Inl AssertionError, w')
                 else (Inr (int (length lines)), w'))"

definition count_deprecated_files_here :: "'w env \<Rightarrow> 'w world \<Rightarrow> (error + int) \<times> 'w world" where
  "count_deprecated_files_here env w =
     (let (result, w') =
            subprocess_run env [''git'', ''-C'', SERENITY_DIR, ''grep'', ''-IFh'', ''DeprecatedFile''] w
      in if returncode result \<notin> set [0, 1] then (Inl AssertionError, w')
         else let lines = split_on NL (stdout result)
              in if last lines \<noteq> [] then (Inl AssertionError, w')
                 else (Inr (int (length lines)), w'))"

subsection \<open>Looking a commit up\<close>

record tagged_commit =
  tc_commit :: string
  tc_unix_timestamp :: int
  tc_human_readable_time :: string
  tc_fixmes :: int
  tc_deprecated_strings :: int
  tc_deprecated_files :: int

text \<open>The \<^verbatim>\<open>return\<close> statement of \<^verbatim>\<open>lookup_commit\<close>: it formats the date, so
  it can raise.\<close>

definition tagged :: "'w env \<Rightarrow> string \<Rightarrow> int \<Rightarrow> int \<times> int \<times> int \<Rightarrow> error + tagged_commit" where
  "tagged env commit date t =
     (case t of (fixmes, deprecated_strings, deprecated_files) \<Rightarrow>
        (case strftime env date of
           None \<Rightarrow> Inl TimestampOutOfRange
         | Some human \<Rightarrow>
             Inr \<lparr>tc_commit = commit, tc_unix_timestamp = date, tc_human_readable_time = human,
                  tc_fixmes = fixmes, tc_deprecated_strings = deprecated_strings,
                  tc_deprecated_files = deprecated_files\<rparr>))"

definition lookup_commit ::
    "'w env \<Rightarrow> string \<Rightarrow> int \<Rightarrow> Cache \<Rightarrow> 'w world \<Rightarrow> (error + tagged_commit) \<times> Cache \<times> 'w world" where
  "lookup_commit env commit date cache w =
     (case map_of cache commit of
        Some t \<Rightarrow> (tagged env commit date t, cache, w)
      | None \<Rightarrow>
          (let (checkout, w1) =
                 subprocess_run env [''git'', ''-C'', SERENITY_DIR, ''checkout'', ''-q'', commit] w
           in if returncode checkout \<noteq> 0 then (Inl CalledProcessError, cache, w1)
              else (case count_fixmes_here env w1 of
                      (Inl e, w2) \<Rightarrow> (Inl e, cache, w2)
                    | (Inr fixmes, w2) \<Rightarrow>
                  (case count_deprecated_strings_here env w2 of
                      (Inl e, w3) \<Rightarrow> (Inl e, cache, w3)
                    | (Inr deprecated_strings, w3) \<Rightarrow>
                  (case count_deprecated_files_here env w3 of
                      (Inl e, w4) \<Rightarrow> (Inl e, cache, w4)
                    | (Inr deprecated_files, w4) \<Rightarrow>
                        (let cache' = dict_set commit (fixmes, deprecated_strings, deprecated_files) cache;
                             w5 = (if length cache' mod SAVE_CACHE_INV_FREQ = 0
                                   then save_cache cache' w4 else w4)
                         in (tagged env commit date (fixmes, deprecated_strings, deprecated_files),
                             cache', w5)))))))"

subsection \<open>The run over all commits\<close>

text \<open>The list comprehension of \<^verbatim>\<open>run\<close>: the first exception ends it.\<close>

fun tagged_commits ::
    "'w env \<Rightarrow> (string \<times> int) list \<Rightarrow> Cache \<Rightarrow> 'w world
      \<Rightarrow> (error + tagged_commit list) \<times> Cache \<times> 'w world" where
  "tagged_commits env [] cache w = (Inr [], cache, w)"
| "tagged_commits env (cd # rest) cache w =
     (case lookup_commit env (fst cd) (snd cd) cache w of
        (Inl e, cache', w') \<Rightarrow> (Inl e, cache', w')
      | (Inr entry, cache', w') \<Rightarrow>
          (case tagged_commits env rest cache' w' of
             (Inl e, cache'', w'') \<Rightarrow> (Inl e, cache'', w'')
           | (Inr entries, cache'', w'') \<Rightarrow> (Inr (entry # entries), cache'', w'')))"

text \<open>Lines 335 to 338 of \<^verbatim>\<open>run\<close>, from the loaded cache on: all lookups, then
  one more \<^verbatim>\<open>save_cache\<close>.\<close>

definition run :: "'w env \<Rightarrow> (string \<times> int) list \<Rightarrow> Cache \<Rightarrow> 'w world
      \<Rightarrow> (error + tagged_commit list) \<times> Cache \<times> 'w world" where
  "run env commits_and_dates cache w =
     (case tagged_commits env commits_and_dates cache w of
        (Inl e, cache', w') \<Rightarrow> (Inl e, cache', w')
      | (Inr entries, cache', w') \<Rightarrow> (Inr entries, cache', save_cache cache' w'))"


section \<open>update\_counts.py: the flame graph\<close>

subsection \<open>More strings\<close>

text \<open>\<^verbatim>\<open>str.strip()\<close> and \<^verbatim>\<open>str.upper()\<close> on 7-bit text.\<close>

definition is_space :: "char \<Rightarrow> bool" where
  "is_space c \<longleftrightarrow>
     c \<in> set [CHR 0x09, CHR 0x0A, CHR 0x0B, CHR 0x0C, CHR 0x0D, CHR 0x1C, CHR 0x1D, CHR 0x1E,
              CHR 0x1F, CHR 0x20]"

definition strip :: "string \<Rightarrow> string" where
  "strip s = rev (dropWhile is_space (rev (dropWhile is_space s)))"

definition upper_char :: "char \<Rightarrow> char" where
  "upper_char c =
     (case map_of (zip ''abcdefghijklmnopqrstuvwxyz'' ''ABCDEFGHIJKLMNOPQRSTUVWXYZ'') c of
        None \<Rightarrow> c
      | Some u \<Rightarrow> u)"

definition upper :: "string \<Rightarrow> string" where
  "upper s = map upper_char s"

text \<open>\<^verbatim>\<open>s.count(sub)\<close>: occurrences of \<open>sub\<close> found from left to right, the search
  going on behind each one found, so that they do not overlap.\<close>

fun count_from :: "string \<Rightarrow> string \<Rightarrow> nat" where
  "count_from sub [] = 0"
| "count_from sub (c # cs) =
     (if prefix sub (c # cs) then Suc (count_from sub (drop (length sub - 1) cs))
      else count_from sub cs)"

definition str_count :: "string \<Rightarrow> string \<Rightarrow> nat" where
  "str_count s sub = (if sub = [] then Suc (length s) else count_from sub s)"

text \<open>The positions of \<open>s\<close> at which \<open>sub\<close> stands, counted one by one.\<close>

primrec occurrences :: "string \<Rightarrow> string \<Rightarrow> nat" where
  "occurrences sub [] = 0"
| "occurrences sub (c # cs) = (if prefix sub (c # cs) then 1 else 0) + occurrences sub cs"

subsection \<open>Paths\<close>

text \<open>\<^verbatim>\<open>os.path.join(a, b)\<close> and \<^verbatim>\<open>os.path.normpath(path)\<close> of \<^verbatim>\<open>posixpath\<close>.\<close>

definition path_join :: "string \<Rightarrow> string \<Rightarrow> string" where
  "path_join a b =
     (if prefix ''/'' b then b
      else if a = [] \<or> suffix ''/'' a then a @ b
      else a @ ''/'' @ b)"

fun norm_comps :: "bool \<Rightarrow> string list \<Rightarrow> string list \<Rightarrow> string list" where
  "norm_comps initial_slashes [] new_comps = new_comps"
| "norm_comps initial_slashes (comp' # comps) new_comps =
     (if comp' = [] \<or> comp' = ''.'' then norm_comps initial_slashes comps new_comps
      else if comp' \<noteq> ''..'' \<or> (\<not> initial_slashes \<and> new_comps = [])
                \<or> (new_comps \<noteq> [] \<and> last new_comps = ''..'')
           then norm_comps initial_slashes comps (new_comps @ [comp'])
      else if new_comps \<noteq> [] then norm_comps initial_slashes comps (butlast new_comps)
      else norm_comps initial_slashes comps new_comps)"

definition normpath :: "string \<Rightarrow> string" where
  "normpath path =
     (if path = [] then ''.''
      else let initial_slashes =
                 (if prefix ''//'' path \<and> \<not> prefix ''///'' path then 2
                  else if prefix ''/'' path then 1 else (0::nat));
               comps = norm_comps (initial_slashes \<noteq> 0) (split_on CHR ''/'' path) [];
               p = replicate initial_slashes CHR ''/'' @ join_str ''/'' comps
           in if p = [] then ''.'' else p)"

subsection \<open>The file system walked\<close>

text \<open>
  The checkout as \<^verbatim>\<open>os.walk\<close> sees it: regular files and directories, each
  directory's entries in the order \<^verbatim>\<open>scandir\<close> lists them. A file's content
  is the list of its lines as iterating over the open file gives them, or it
  does not decode as UTF-8.
\<close>

datatype fcontent = Lines "string list" | Undecodable

datatype fsentry = File string fcontent | Dir string "fsentry list"

text \<open>The directory names and the files of one directory. A file is listed
  with its content, which the source reads by opening the joined path.\<close>

fun dirs_of :: "fsentry list \<Rightarrow> string list" where
  "dirs_of [] = []"
| "dirs_of (Dir n es # rest) = n # dirs_of rest"
| "dirs_of (File n c # rest) = dirs_of rest"

fun files_of :: "fsentry list \<Rightarrow> (string \<times> fcontent) list" where
  "files_of [] = []"
| "files_of (Dir n es # rest) = files_of rest"
| "files_of (File n c # rest) = (n, c) # files_of rest"

text \<open>\<^verbatim>\<open>os.walk(root, topdown=False)\<close>: the triples of all subdirectories, each
  subtree in turn, then the directory's own triple.\<close>

fun walk :: "string \<Rightarrow> fsentry list \<Rightarrow> (string \<times> string list \<times> (string \<times> fcontent) list) list" where
  "walk root entries =
     concat (map (\<lambda>e. case e of Dir n es \<Rightarrow> walk (path_join root n) es | File n c \<Rightarrow> []) entries)
     @ [(root, dirs_of entries, files_of entries)]"

subsection \<open>Nodes\<close>

text \<open>Class \<^verbatim>\<open>Node\<close>; both counts start at zero.\<close>

datatype Node = Node (name: string) (children: "Node list") (todos: nat) (locs: nat)

text \<open>
  A node object is reached from the root by the names on the way to it, at
  each level the first child of that name: \<^verbatim>\<open>get_node\<close> answers with that
  path, and an assignment to the node's fields is \<open>assign_at\<close> the path.
  \<open>visit_child\<close> is the inner loop of \<^verbatim>\<open>get_node\<close> with its \<^verbatim>\<open>else\<close>: the
  first child of the name, or a new last child; \<open>descend\<close> is its outer loop.
\<close>

fun visit_child :: "string \<Rightarrow> (Node \<Rightarrow> Node \<times> bool) \<Rightarrow> Node list \<Rightarrow> Node list \<times> bool" where
  "visit_child file_name k [] =
     (let (new_node, found) = k (Node file_name [] 0 0) in ([new_node], found))"
| "visit_child file_name k (child # rest) =
     (if name child = file_name
      then (let (child', found) = k child in (child' # rest, found))
      else (let (rest', found) = visit_child file_name k rest in (child # rest', found)))"

primrec descend :: "string list \<Rightarrow> Node \<Rightarrow> Node \<times> bool" where
  "descend [] node = (node, True)"
| "descend (file_name # comps) node =
     (if file_name \<in> set [''.git'', ''.devcontainer''] then (node, False)
      else (let (children', found) = visit_child file_name (descend comps) (children node)
            in (Node (name node) children' (todos node) (locs node), found)))"

definition get_node :: "string \<Rightarrow> Node \<Rightarrow> Node \<times> string list option" where
  "get_node path flamegraph =
     (let comps = split_on CHR ''/'' (normpath path);
          (flamegraph', found) = descend comps flamegraph
      in (flamegraph', if found then Some comps else None))"

fun modify_first :: "string \<Rightarrow> (Node \<Rightarrow> Node) \<Rightarrow> Node list \<Rightarrow> Node list" where
  "modify_first file_name f [] = []"
| "modify_first file_name f (child # rest) =
     (if name child = file_name then f child # rest else child # modify_first file_name f rest)"

primrec assign_at :: "string list \<Rightarrow> (Node \<Rightarrow> Node) \<Rightarrow> Node \<Rightarrow> Node" where
  "assign_at [] f node = f node"
| "assign_at (file_name # comps) f node =
     Node (name node) (modify_first file_name (assign_at comps f) (children node))
          (todos node) (locs node)"

subsection \<open>The ratio of a file\<close>

text \<open>
  \<^verbatim>\<open>todos / locs\<close> is a double and \<^verbatim>\<open>f"{ratio:.2%}"\<close> prints it: a double is
  the pair \<open>(m, e)\<close> of value \<open>m * 2 ^ e\<close>; division and multiplication round
  to the nearest double of 53 bits, ties to even, and the two decimals printed
  are rounded from the double's exact value, ties to even. Exponents stay in
  the normal range for all counts below \<open>2 ^ 1000\<close>.
\<close>

type_synonym pyfloat = "nat \<times> int"

definition round_half_even :: "nat \<Rightarrow> nat \<Rightarrow> nat" where
  "round_half_even a b =
     (let q = a div b; r = a mod b
      in if 2 * r < b then q else if b < 2 * r then q + 1 else if even q then q else q + 1)"

fun bit_length :: "nat \<Rightarrow> nat" where
  "bit_length n = (if n = 0 then 0 else Suc (bit_length (n div 2)))"

definition true_div :: "nat \<Rightarrow> nat \<Rightarrow> pyfloat" where
  "true_div a b =
     (if a = 0 then (0, 0)
      else let s0 = 53 + int (bit_length b) - int (bit_length a);
               s = (if b * 2 ^ nat (- s0) * 2 ^ 53 \<le> a * 2 ^ nat s0 then s0 - 1 else s0)
           in (round_half_even (a * 2 ^ nat s) (b * 2 ^ nat (- s)), - s))"

definition times_100 :: "pyfloat \<Rightarrow> pyfloat" where
  "times_100 x =
     (case x of (m, e) \<Rightarrow>
        let n = m * 100; l = bit_length n
        in if l \<le> 53 then (n, e) else (round_half_even n (2 ^ (l - 53)), e + int (l - 53)))"

definition format_percent :: "pyfloat \<Rightarrow> string" where
  "format_percent x =
     (case times_100 x of (m, e) \<Rightarrow>
        let h = round_half_even (m * 100 * 2 ^ nat e) (2 ^ nat (- e))
        in str_nat (h div 100) @ ''.'' @ str_nat (h mod 100 div 10) @ str_nat (h mod 10) @ ''%'')"

subsection \<open>Building the tree\<close>

record builder =
  flamegraph :: Node
  ratios_list :: "(nat \<times> nat \<times> pyfloat \<times> string) list"

text \<open>The loop over the lines of one file, from the counts so far.\<close>

fun scan_lines :: "string list \<Rightarrow> nat \<Rightarrow> nat \<Rightarrow> nat \<times> nat" where
  "scan_lines [] todos' locs' = (todos', locs')"
| "scan_lines (line # rest) todos' locs' =
     (let line' = upper (strip line);
          todos'' = todos' + (str_count line' ''FIXME'' + str_count line' ''TODO'');
          locs'' = (if line' \<noteq> [] \<and> \<not> prefix ''//'' line' then locs' + 1 else locs')
      in scan_lines rest todos'' locs'')"

text \<open>The body of \<^verbatim>\<open>for name in files\<close>.\<close>

definition process_file :: "string \<Rightarrow> string \<times> fcontent \<Rightarrow> builder \<Rightarrow> builder" where
  "process_file root file b =
     (case file of (name', content) \<Rightarrow>
        let full_name = path_join root name'
        in if \<not> list_ex (\<lambda>ext. suffix ext name')
                   [''.h'', ''.c'', ''.cpp'', ''.html'', ''.js'', ''.sh'', ''*.txt'', ''*.cmake'']
           then b
           else if full_name \<in> set
                   [''./Tests/LibWeb/Layout/input/html-encoding-detection-crash.html'',
                    ''./Tests/LibWeb/Layout/input/utf-16-be-xhtml-file-should-decode-correctly.html'']
           then b
           else (case get_node full_name (flamegraph b) of
                   (flamegraph', None) \<Rightarrow> b\<lparr>flamegraph := flamegraph'\<rparr>
                 | (flamegraph', Some node) \<Rightarrow>
                     (case content of
                        Undecodable \<Rightarrow> b\<lparr>flamegraph := flamegraph'\<rparr>
                      | Lines file_p \<Rightarrow>
                          (case scan_lines file_p 0 0 of (todos', locs') \<Rightarrow>
                             let assigned = assign_at node
                                   (\<lambda>n. Node (name n) (children n) todos' locs') flamegraph'
                             in if todos' \<noteq> 0 \<and> locs' \<noteq> 0
                                then b\<lparr>flamegraph := assigned,
                                       ratios_list := ratios_list b @
                                         [(todos', locs', true_div todos' locs',
                                           if prefix ''./'' full_name then drop 2 full_name
                                           else full_name)]\<rparr>
                                else b\<lparr>flamegraph := assigned\<rparr>))))"

text \<open>The body of \<^verbatim>\<open>for name in dirs\<close>.\<close>

definition process_dir :: "string \<Rightarrow> string \<Rightarrow> builder \<Rightarrow> builder" where
  "process_dir root name' b =
     (case get_node (path_join root name') (flamegraph b) of
        (flamegraph', None) \<Rightarrow> b\<lparr>flamegraph := flamegraph'\<rparr>
      | (flamegraph', Some node) \<Rightarrow>
          b\<lparr>flamegraph := assign_at node
               (\<lambda>n. Node (name n) (children n) (sum_list (map todos (children n)))
                        (sum_list (map locs (children n)))) flamegraph'\<rparr>)"

text \<open>One step of \<^verbatim>\<open>for root, dirs, files in os.walk(...)\<close>, and the whole loop
  from the empty root node.\<close>

definition process_triple :: "string \<times> string list \<times> (string \<times> fcontent) list \<Rightarrow> builder \<Rightarrow> builder" where
  "process_triple triple b =
     (case triple of (root, dirs, files) \<Rightarrow>
        fold (process_dir root) dirs (fold (process_file root) files b))"

definition build :: "fsentry list \<Rightarrow> builder" where
  "build entries =
     fold process_triple (walk ''.'' entries)
       \<lparr>flamegraph = Node ''.'' [] 0 0, ratios_list = []\<rparr>"

subsection \<open>The output\<close>

text \<open>An output node: the keys \<^verbatim>\<open>"name"\<close> and \<^verbatim>\<open>"value"\<close>, and \<^verbatim>\<open>"children"\<close>
  when it is set.\<close>

datatype OutputNode =
  OutputNode (o_name: string) (o_value: nat) (o_children: "OutputNode list option")

text \<open>\<^verbatim>\<open>new_child.get("children", [])\<close>.\<close>

definition get_children :: "OutputNode \<Rightarrow> OutputNode list" where
  "get_children new_child = (case o_children new_child of None \<Rightarrow> [] | Some cs \<Rightarrow> cs)"

fun set_value :: "(Node \<Rightarrow> nat) \<Rightarrow> Node \<Rightarrow> OutputNode" where
  "set_value calculate (Node nm chs t l) =
     (let children' = filter (\<lambda>new_child. o_value new_child \<noteq> 0 \<or> get_children new_child \<noteq> [])
                        (map (set_value calculate) chs)
      in OutputNode nm (calculate (Node nm chs t l))
           (if children' \<noteq> [] then Some children' else None))"

text \<open>The text of \<^verbatim>\<open>ratio.csv\<close>.\<close>

definition ratio_row :: "nat \<times> nat \<times> pyfloat \<times> string \<Rightarrow> string" where
  "ratio_row e =
     (case e of (e0, e1, e2, e3) \<Rightarrow>
        str_nat e0 @ '','' @ str_nat e1 @ '','' @ format_percent e2 @ '','' @ e3 @ [NL])"

definition ratio_csv :: "(nat \<times> nat \<times> pyfloat \<times> string) list \<Rightarrow> string" where
  "ratio_csv rows = ''TODO,LOC,TODO/LOC,FILE'' @ [NL] @ concat (map ratio_row rows)"

text \<open>\<^verbatim>\<open>generate_flame_graph\<close>: the two projections and the report.\<close>

definition generate_flame_graph :: "fsentry list \<Rightarrow> OutputNode \<times> OutputNode \<times> string" where
  "generate_flame_graph entries =
     (let b = build entries
      in (set_value todos (flamegraph b), set_value locs (flamegraph b),
          ratio_csv (ratios_list b)))"

section \<open>Notions used in the statements\<close>

text \<open>The command line of the checkout in \<^verbatim>\<open>lookup_commit\<close>.\<close>

definition checkout_argv :: "string \<Rightarrow> string list" where
  "checkout_argv commit = [''git'', ''-C'', SERENITY_DIR, ''checkout'', ''-q'', commit]"

text \<open>The part of the cache that the file holds during a run that started from
  \<open>cache0\<close> on file: the longest prefix whose length is a multiple of
  \<^verbatim>\<open>SAVE_CACHE_INV_FREQ\<close>, and never less than \<open>cache0\<close>.\<close>

definition flushed_part :: "Cache \<Rightarrow> Cache \<Rightarrow> Cache" where
  "flushed_part cache0 cache =
     take (max (length cache0) (length cache - length cache mod SAVE_CACHE_INV_FREQ)) cache"

text \<open>The cache grew from \<open>cache0\<close> and the file holds its flushed part.\<close>

definition synced :: "Cache \<Rightarrow> Cache \<Rightarrow> 'w world \<Rightarrow> bool" where
  "synced cache0 cache w \<longleftrightarrow>
     prefix cache0 cache \<and> disk w FILENAME_CACHE = Some (json_dump (flushed_part cache0 cache))"

text \<open>Sample collaborators: with \<open>ok_env\<close> the checkout succeeds and every search
  finds nothing (exit status 1, no output); with \<open>silent_env\<close> every process
  ends with exit status 1.\<close>

definition ok_env :: "unit env" where
  "ok_env = \<lparr>exec = (\<lambda>argv tree. (\<lparr>returncode = (if ''checkout'' \<in> set argv then 0 else 1), stdout = []\<rparr>, tree)),
              strftime = (\<lambda>date. Some ''1970-01-01 00:00:00'')\<rparr>"

definition silent_env :: "unit env" where
  "silent_env = \<lparr>exec = (\<lambda>argv tree. (\<lparr>returncode = 1, stdout = []\<rparr>, tree)), strftime = (\<lambda>date. None)\<rparr>"

text \<open>Sample worlds: no file at all; the cache file of an empty cache.\<close>

definition empty_world :: "unit world" where
  "empty_world = \<lparr>disk = Map.empty, worktree = (), calls = []\<rparr>"

definition seeded_world :: "unit world" where
  "seeded_world = \<lparr>disk = [FILENAME_CACHE \<mapsto> ''{}''], worktree = (), calls = []\<rparr>"

text \<open>A cache of 199 keys, none of them \<open>b\<close>.\<close>

definition cache199 :: Cache where
  "cache199 = map (\<lambda>i. (replicate (Suc i) CHR ''a'', 1, 1, 1)) [0..<199]"

section \<open>Proofs: the cache\<close>

subsection \<open>Strings and dictionaries\<close>

lemma split_on_not_Nil: "split_on sep s \<noteq> []"
  by (induction s) (auto split: list.splits)

lemma length_split_on: "length (split_on sep s) = Suc (count_list s sep)"
  by (induction s) (auto split: list.splits simp: split_on_not_Nil)

lemma dict_set_absent: "map_of kvs k = None \<Longrightarrow> dict_set k v kvs = kvs @ [(k, v)]"
  by (induction kvs) (auto split: if_splits)

subsection \<open>What the scans leave alone\<close>

lemma subprocess_run_disk: "subprocess_run env argv w = (res, w') \<Longrightarrow> disk w' = disk w"
  by (auto simp: subprocess_run_def Let_def split: prod.splits)

lemma count_fixmes_here_disk:
  "count_fixmes_here env w = (r, w') \<Longrightarrow> disk w' = disk w"
  by (auto simp: count_fixmes_here_def subprocess_run_def Let_def split: prod.splits if_splits)

lemma count_deprecated_strings_here_disk:
  "count_deprecated_strings_here env w = (r, w') \<Longrightarrow> disk w' = disk w"
  by (auto simp: count_deprecated_strings_here_def subprocess_run_def Let_def split: prod.splits if_splits)

lemma count_deprecated_files_here_disk:
  "count_deprecated_files_here env w = (r, w') \<Longrightarrow> disk w' = disk w"
  by (auto simp: count_deprecated_files_here_def subprocess_run_def Let_def split: prod.splits if_splits)

lemma save_cache_disk: "disk (save_cache cache w) = (disk w)(FILENAME_CACHE \<mapsto> json_dump cache)"
  by (simp add: save_cache_def save_cache_steps_def)

subsection \<open>A lookup, case by case\<close>

lemma lookup_commit_miss_cases:
  assumes miss: "map_of cache commit = None"
    and res: "lookup_commit env commit date cache w = (r, cache', w')"
  obtains
    (failed) e where "r = Inl e" "cache' = cache" "disk w' = disk w"
  | (stored) co w1 fixmes w2 deprecated_strings w3 deprecated_files w4 where
      "subprocess_run env (checkout_argv commit) w = (co, w1)" "returncode co = 0"
      "count_fixmes_here env w1 = (Inr fixmes, w2)"
      "count_deprecated_strings_here env w2 = (Inr deprecated_strings, w3)"
      "count_deprecated_files_here env w3 = (Inr deprecated_files, w4)"
      "cache' = cache @ [(commit, fixmes, deprecated_strings, deprecated_files)]"
      "r = tagged env commit date (fixmes, deprecated_strings, deprecated_files)"
      "w' = (if length cache' mod SAVE_CACHE_INV_FREQ = 0 then save_cache cache' w4 else w4)"
      "disk w4 = disk w"
proof -
  obtain co w1 where co: "subprocess_run env (checkout_argv commit) w = (co, w1)"
    by (cases "subprocess_run env (checkout_argv commit) w") auto
  have d1: "disk w1 = disk w" using co by (rule subprocess_run_disk)
  show thesis
  proof (cases "returncode co = 0")
    case False
    with miss res co d1 show thesis
      by (intro failed[of CalledProcessError]) (auto simp: lookup_commit_def checkout_argv_def)
  next
    case rc: True
    obtain r2 w2 where s2: "count_fixmes_here env w1 = (r2, w2)"
      by (cases "count_fixmes_here env w1") auto
    have d2: "disk w2 = disk w" using s2 d1 by (simp add: count_fixmes_here_disk)
    show thesis
    proof (cases r2)
      case (Inl e)
      with miss res co rc s2 d2 show thesis
        by (intro failed[of e]) (auto simp: lookup_commit_def checkout_argv_def)
    next
      case f: (Inr fixmes)
      obtain r3 w3 where s3: "count_deprecated_strings_here env w2 = (r3, w3)"
        by (cases "count_deprecated_strings_here env w2") auto
      have d3: "disk w3 = disk w" using s3 d2 by (simp add: count_deprecated_strings_here_disk)
      show thesis
      proof (cases r3)
        case (Inl e)
        with miss res co rc s2 f s3 d3 show thesis
          by (intro failed[of e]) (auto simp: lookup_commit_def checkout_argv_def)
      next
        case s: (Inr deprecated_strings)
        obtain r4 w4 where s4: "count_deprecated_files_here env w3 = (r4, w4)"
          by (cases "count_deprecated_files_here env w3") auto
        have d4: "disk w4 = disk w" using s4 d3 by (simp add: count_deprecated_files_here_disk)
        show thesis
        proof (cases r4)
          case (Inl e)
          with miss res co rc s2 f s3 s s4 d4 show thesis
            by (intro failed[of e]) (auto simp: lookup_commit_def checkout_argv_def)
        next
          case d: (Inr deprecated_files)
          from miss res co rc s2 f s3 s s4 d d4 show thesis
            by (intro stored[of co w1 fixmes w2 deprecated_strings w3 deprecated_files w4])
               (auto simp: lookup_commit_def checkout_argv_def Let_def dict_set_absent)
        qed
      qed
    qed
  qed
qed

lemma lookup_commit_hit:
  "map_of cache commit = Some t \<Longrightarrow> lookup_commit env commit date cache w = (tagged env commit date t, cache, w)"
  by (simp add: lookup_commit_def)


lemma ok_lookup_any:
  "lookup_commit ok_env ''c0ffee'' 0 [] w =
     (Inr \<lparr>tc_commit = ''c0ffee'', tc_unix_timestamp = 0, tc_human_readable_time = ''1970-01-01 00:00:00'',
           tc_fixmes = 1, tc_deprecated_strings = 1, tc_deprecated_files = 1\<rparr>,
      [(''c0ffee'', 1, 1, 1)],
      w\<lparr>calls := calls w @
               [[''git'', ''-C'', ''serenity/'', ''checkout'', ''-q'', ''c0ffee''],
                [''git'', ''-C'', ''serenity/'', ''grep'', ''-IiEh'', ''FIXME|TODO''],
                [''git'', ''-C'', ''serenity/'', ''grep'', ''-IEh'', ''DeprecatedFlyString''],
                [''git'', ''-C'', ''serenity/'', ''grep'', ''-IFh'', ''DeprecatedFile'']]\<rparr>)"
  by (simp add: lookup_commit_def subprocess_run_def count_fixmes_here_def
        count_deprecated_strings_here_def count_deprecated_files_here_def ok_env_def
        tagged_def SERENITY_DIR_def SAVE_CACHE_INV_FREQ_def NL_def)




subsection \<open>When the cache is written\<close>

lemma flushed_part_self: "flushed_part cache cache = cache"
  by (simp add: flushed_part_def)

lemma flushed_part_short: "length cache - length (flushed_part cache0 cache) < SAVE_CACHE_INV_FREQ"
proof -
  have "length cache mod SAVE_CACHE_INV_FREQ < SAVE_CACHE_INV_FREQ"
    by (simp add: SAVE_CACHE_INV_FREQ_def)
  then show ?thesis
    by (auto simp: flushed_part_def min_def max_def)
qed

lemma flushed_part_snoc:
  assumes "prefix cache0 cache" "Suc (length cache) mod SAVE_CACHE_INV_FREQ \<noteq> 0"
  shows "flushed_part cache0 (cache @ [x]) = flushed_part cache0 cache"
proof -
  have le: "length cache0 \<le> length cache" using assms(1) by (rule prefix_length_le)
  have m: "Suc (length cache) mod SAVE_CACHE_INV_FREQ = Suc (length cache mod SAVE_CACHE_INV_FREQ)"
    using assms(2) by (simp add: mod_Suc split: if_splits)
  have "max (length cache0) (Suc (length cache) - Suc (length cache) mod SAVE_CACHE_INV_FREQ)
        = max (length cache0) (length cache - length cache mod SAVE_CACHE_INV_FREQ)"
    using m by simp
  moreover have "max (length cache0) (length cache - length cache mod SAVE_CACHE_INV_FREQ) \<le> length cache"
    using le by simp
  ultimately show ?thesis by (simp add: flushed_part_def)
qed

lemma flushed_part_full:
  assumes "prefix cache0 cache'" "length cache' mod SAVE_CACHE_INV_FREQ = 0"
  shows "flushed_part cache0 cache' = cache'"
  using assms by (simp add: flushed_part_def)

lemma lookup_commit_synced:
  assumes "synced cache0 cache w" and "lookup_commit env commit date cache w = (r, cache', w')"
  shows "synced cache0 cache' w'"
proof (cases "map_of cache commit")
  case (Some t)
  with assms show ?thesis by (simp add: lookup_commit_hit)
next
  case None
  from None assms(2) show ?thesis
  proof (cases rule: lookup_commit_miss_cases)
    case (failed e)
    with assms(1) show ?thesis by (simp add: synced_def)
  next
    case (stored co w1 fixmes w2 deprecated_strings w3 deprecated_files w4)
    have p: "prefix cache0 cache" using assms(1) by (simp add: synced_def)
    then have p': "prefix cache0 cache'" using stored(6) by simp
    show ?thesis
    proof (cases "length cache' mod SAVE_CACHE_INV_FREQ = 0")
      case True
      then show ?thesis using p' stored(8)
        by (simp add: synced_def save_cache_disk flushed_part_full)
    next
      case False
      then have "flushed_part cache0 cache' = flushed_part cache0 cache"
        using p stored(6) by (simp add: flushed_part_snoc)
      then show ?thesis using False p' stored(8,9) assms(1) by (simp add: synced_def)
    qed
  qed
qed

lemma tagged_commits_synced:
  "synced cache0 cache w \<Longrightarrow> tagged_commits env cds cache w = (r, cache', w') \<Longrightarrow> synced cache0 cache' w'"
proof (induction cds arbitrary: cache w r cache' w')
  case Nil
  then show ?case by simp
next
  case (Cons cd cds)
  obtain r1 c1 w1 where l: "lookup_commit env (fst cd) (snd cd) cache w = (r1, c1, w1)"
    by (cases "lookup_commit env (fst cd) (snd cd) cache w") auto
  have s1: "synced cache0 c1 w1" using Cons.prems(1) l by (rule lookup_commit_synced)
  show ?case
  proof (cases r1)
    case (Inl e)
    with Cons.prems(2) l s1 show ?thesis by simp
  next
    case (Inr entry)
    obtain r2 c2 w2 where t: "tagged_commits env cds c1 w1 = (r2, c2, w2)"
      by (cases "tagged_commits env cds c1 w1") auto
    have "synced cache0 c2 w2" using s1 t by (rule Cons.IH)
    with Cons.prems(2) l Inr t show ?thesis by (cases r2) auto
  qed
qed

lemma run_Inr_disk:
  assumes "run env cds cache w = (Inr entries, cache', w')"
  shows "disk w' FILENAME_CACHE = Some (json_dump cache')"
  using assms
  by (auto simp: run_def save_cache_disk split: prod.splits sum.splits)

lemma lookup_commit_trigger:
  assumes "map_of c commit = None" and "lookup_commit env commit date c w0 = (r1, c1, w1)" and "c1 \<noteq> c"
  shows "disk w1 = (if length c1 mod SAVE_CACHE_INV_FREQ = 0
                    then (disk w0)(FILENAME_CACHE \<mapsto> json_dump c1) else disk w0)"
  using assms(1,2)
proof (cases rule: lookup_commit_miss_cases)
  case (failed e)
  with assms(3) show ?thesis by simp
next
  case stored
  then show ?thesis by (simp add: save_cache_disk)
qed

text \<open>
  C5 (amended). Started with a cache that is on file: after any number of
  lookups the cache has only grown at its end, the file holds its longest
  prefix whose length is a multiple of 200 (or the initial cache), so fewer
  than 200 entries are in memory only; a run that ends without exception
  leaves the whole cache on file; and a miss that stores an entry writes the
  file exactly when the total number of keys is then a multiple of 200.
\<close>

theorem cache_flush_policy:
  assumes "disk w FILENAME_CACHE = Some (json_dump cache)"
  shows "(\<forall>cds r cache' w'. tagged_commits env cds cache w = (r, cache', w') \<longrightarrow>
            prefix cache cache'
          \<and> disk w' FILENAME_CACHE = Some (json_dump (flushed_part cache cache'))
          \<and> length cache' - length (flushed_part cache cache') < SAVE_CACHE_INV_FREQ)
       \<and> (\<forall>cds entries cache' w'. run env cds cache w = (Inr entries, cache', w') \<longrightarrow>
            disk w' FILENAME_CACHE = Some (json_dump cache'))
       \<and> (\<forall>commit date c w0 r1 c1 w1.
            map_of c commit = None \<and> lookup_commit env commit date c w0 = (r1, c1, w1) \<and> c1 \<noteq> c \<longrightarrow>
            disk w1 = (if length c1 mod SAVE_CACHE_INV_FREQ = 0
                       then (disk w0)(FILENAME_CACHE \<mapsto> json_dump c1) else disk w0))"
proof (intro conjI allI impI)
  fix cds r cache' w'
  assume t: "tagged_commits env cds cache w = (r, cache', w')"
  have "synced cache cache w" using assms by (simp add: synced_def flushed_part_self)
  then have s: "synced cache cache' w'" using t by (rule tagged_commits_synced)
  show "prefix cache cache'" using s by (simp add: synced_def)
  show "disk w' FILENAME_CACHE = Some (json_dump (flushed_part cache cache'))"
    using s by (simp add: synced_def)
  show "length cache' - length (flushed_part cache cache') < SAVE_CACHE_INV_FREQ"
    by (rule flushed_part_short)
next
  fix cds entries cache' w'
  assume "run env cds cache w = (Inr entries, cache', w')"
  then show "disk w' FILENAME_CACHE = Some (json_dump cache')" by (rule run_Inr_disk)
next
  fix commit date c w0 r1 c1 w1
  assume "map_of c commit = None \<and> lookup_commit env commit date c w0 = (r1, c1, w1) \<and> c1 \<noteq> c"
  then show "disk w1 = (if length c1 mod SAVE_CACHE_INV_FREQ = 0
                       then (disk w0)(FILENAME_CACHE \<mapsto> json_dump c1) else disk w0)"
    using lookup_commit_trigger by blast
qed

text \<open>
  One miss from the empty cache on file.
\<close>

theorem cache_flush_policy_witness:
  "disk seeded_world FILENAME_CACHE = Some (json_dump [])
   \<and> disk (snd (snd (run ok_env [(''c0ffee'', 0)] [] seeded_world))) FILENAME_CACHE
       = Some (json_dump [(''c0ffee'', 1, 1, 1)])
   \<and> disk (snd (snd (tagged_commits ok_env [(''c0ffee'', 0)] [] seeded_world))) FILENAME_CACHE
       = Some (json_dump (flushed_part [] [(''c0ffee'', 1, 1, 1)]))"
proof -
  have h: "disk seeded_world FILENAME_CACHE = Some (json_dump [])"
    by (simp add: seeded_world_def json_dump_def)
  have t: "tagged_commits ok_env [(''c0ffee'', 0)] [] seeded_world
             = (Inr [\<lparr>tc_commit = ''c0ffee'', tc_unix_timestamp = 0, tc_human_readable_time = ''1970-01-01 00:00:00'',
           tc_fixmes = 1, tc_deprecated_strings = 1, tc_deprecated_files = 1\<rparr>], [(''c0ffee'', 1, 1, 1)],
                snd (snd (tagged_commits ok_env [(''c0ffee'', 0)] [] seeded_world)))"
    by (simp add: ok_lookup_any)
  have r: "run ok_env [(''c0ffee'', 0)] [] seeded_world
             = (Inr [\<lparr>tc_commit = ''c0ffee'', tc_unix_timestamp = 0, tc_human_readable_time = ''1970-01-01 00:00:00'',
           tc_fixmes = 1, tc_deprecated_strings = 1, tc_deprecated_files = 1\<rparr>], [(''c0ffee'', 1, 1, 1)],
                snd (snd (run ok_env [(''c0ffee'', 0)] [] seeded_world)))"
    by (simp add: run_def ok_lookup_any)
  from cache_flush_policy[OF h, of ok_env] t r h show ?thesis by blast
qed

lemma length_cache199: "length cache199 = 199"
  by (simp add: cache199_def)

lemma cache199_miss: "map_of cache199 ''b'' = None"
  by (auto simp: cache199_def map_of_eq_None_iff)

text \<open>
  C5 as stated fails: from a cache of 199 keys the first newly computed entry
  of the run is followed by a flush, so flushes do not count the new entries
  of the run.
\<close>

theorem flush_after_first_new_entry:
  "length cache199 = 199 \<and> map_of cache199 ''b'' = None \<and> disk empty_world FILENAME_CACHE = None
   \<and> length (fst (snd (lookup_commit ok_env ''b'' 0 cache199 empty_world))) = length cache199 + 1
   \<and> disk (snd (snd (lookup_commit ok_env ''b'' 0 cache199 empty_world))) FILENAME_CACHE
       = Some (json_dump (fst (snd (lookup_commit ok_env ''b'' 0 cache199 empty_world))))"
  by (simp add: length_cache199 cache199_miss lookup_commit_def subprocess_run_def count_fixmes_here_def
        count_deprecated_strings_here_def count_deprecated_files_here_def ok_env_def empty_world_def
        tagged_def SERENITY_DIR_def SAVE_CACHE_INV_FREQ_def NL_def dict_set_absent save_cache_disk Let_def)

subsection \<open>Lookups of known commits\<close>

lemma tagged_commits_all_cached:
  "\<forall>cd\<in>set cds. map_of cache (fst cd) \<noteq> None \<Longrightarrow> snd (tagged_commits env cds cache w) = (cache, w)"
proof (induction cds)
  case Nil
  then show ?case by simp
next
  case (Cons cd cds)
  then obtain t where t: "map_of cache (fst cd) = Some t" by auto
  have IH: "snd (tagged_commits env cds cache w) = (cache, w)" using Cons by simp
  show ?case
    using IH by (cases "tagged env (fst cd) (snd cd) t"; cases "tagged_commits env cds cache w"; cases "fst (tagged_commits env cds cache w)")
      (auto simp: lookup_commit_hit[OF t])
qed

text \<open>
  C6. For a commit that is a key of the cache, \<^verbatim>\<open>lookup_commit\<close> leaves the
  cache and the world (files, working tree, processes run) as they were and
  returns the stored triple with the commit and its date (or raises when the
  date cannot be formatted); a run over commits that are all keys leaves the
  cache and the world unchanged, so no checkout and no scan is run.
\<close>

theorem lookup_commit_cached:
  "(\<forall>commit date fixmes deprecated_strings deprecated_files w.
      map_of cache commit = Some (fixmes, deprecated_strings, deprecated_files) \<longrightarrow>
      lookup_commit env commit date cache w =
        ((case strftime env date of
            None \<Rightarrow> Inl TimestampOutOfRange
          | Some human \<Rightarrow>
              Inr \<lparr>tc_commit = commit, tc_unix_timestamp = date, tc_human_readable_time = human,
                   tc_fixmes = fixmes, tc_deprecated_strings = deprecated_strings,
                   tc_deprecated_files = deprecated_files\<rparr>), cache, w))
   \<and> ((\<forall>cd\<in>set cds. map_of cache (fst cd) \<noteq> None) \<longrightarrow>
        snd (tagged_commits env cds cache w) = (cache, w))"
  by (auto simp: lookup_commit_hit tagged_def tagged_commits_all_cached simp del: tagged_commits.simps)

text \<open>
  A cache of one key, looked up once and in a run of two.
\<close>

theorem lookup_commit_cached_witness:
  "map_of [(''c0ffee'', 3, 2, 1)] ''c0ffee'' = Some (3, 2, 1)
   \<and> lookup_commit ok_env ''c0ffee'' 0 [(''c0ffee'', 3, 2, 1)] empty_world =
       (Inr \<lparr>tc_commit = ''c0ffee'', tc_unix_timestamp = 0, tc_human_readable_time = ''1970-01-01 00:00:00'',
             tc_fixmes = 3, tc_deprecated_strings = 2, tc_deprecated_files = 1\<rparr>,
        [(''c0ffee'', 3, 2, 1)], empty_world)
   \<and> snd (tagged_commits ok_env [(''c0ffee'', 0), (''c0ffee'', 5)] [(''c0ffee'', 3, 2, 1)] empty_world)
       = ([(''c0ffee'', 3, 2, 1)], empty_world)"
proof -
  have h: "map_of [(''c0ffee'', 3, 2, 1)] ''c0ffee'' = Some (3::int, 2::int, 1::int)" by simp
  have a: "\<forall>cd\<in>set [(''c0ffee'', 0::int), (''c0ffee'', 5)]. map_of [(''c0ffee'', 3::int, 2::int, 1::int)] (fst cd) \<noteq> None"
    by simp
  have s: "strftime ok_env 0 = Some ''1970-01-01 00:00:00''" by (simp add: ok_env_def)
  from lookup_commit_cached[of "[(''c0ffee'', 3, 2, 1)]" ok_env "[(''c0ffee'', 0), (''c0ffee'', 5)]" empty_world] h a s
  show ?thesis by (auto simp del: tagged_commits.simps)
qed

subsection \<open>Saving the cache\<close>

text \<open>
  C3 as stated fails: with an empty cache on file, saving a cache of one key
  goes through a state in which the file is neither the old nor the new
  serialization (it is empty).
\<close>

theorem save_cache_truncates_counterexample:
  "\<not> (\<forall>fs'\<in>set (save_cache_steps [(''c0ffee'', 1, 1, 1)] [FILENAME_CACHE \<mapsto> json_dump []]).
        fs' FILENAME_CACHE = [FILENAME_CACHE \<mapsto> json_dump []] FILENAME_CACHE
      \<or> fs' FILENAME_CACHE = Some (json_dump [(''c0ffee'', 1, 1, 1)]))"
  by (simp add: save_cache_steps_def json_dump_def)

text \<open>
  C3 (amended). \<^verbatim>\<open>save_cache\<close> writes the cache file in place: every state it
  goes through leaves the other files alone and holds a prefix of the new
  serialization in the cache file, the first of them the empty file; when it
  returns the file holds the whole serialization.
\<close>

theorem save_cache_in_place:
  "(\<forall>fs'\<in>set (save_cache_steps cache fs).
      (\<forall>f. f \<noteq> FILENAME_CACHE \<longrightarrow> fs' f = fs f)
    \<and> (\<exists>p. fs' FILENAME_CACHE = Some p \<and> prefix p (json_dump cache)))
   \<and> hd (save_cache_steps cache fs) FILENAME_CACHE = Some []
   \<and> disk (save_cache cache w) = (disk w)(FILENAME_CACHE \<mapsto> json_dump cache)"
  by (simp add: save_cache_steps_def save_cache_def)

text \<open>
  Saving the empty cache to an empty disk.
\<close>

theorem save_cache_in_place_witness:
  "hd (save_cache_steps [] Map.empty) FILENAME_CACHE = Some []
   \<and> last (save_cache_steps [] Map.empty) FILENAME_CACHE = Some ''{}''
   \<and> last (save_cache_steps [] Map.empty) ''tagged_history.csv'' = None
   \<and> disk (save_cache [] empty_world) FILENAME_CACHE = Some ''{}''"
proof -
  have m: "last (save_cache_steps [] Map.empty) \<in> set (save_cache_steps [] Map.empty)"
    by (simp add: save_cache_steps_def)
  have n: "''tagged_history.csv'' \<noteq> FILENAME_CACHE" by (simp add: FILENAME_CACHE_def)
  from save_cache_in_place[of "[]" Map.empty empty_world] m n show ?thesis
    by (simp add: save_cache_steps_def json_dump_def)
qed

subsection \<open>The counts of the scans\<close>

text \<open>
  C1 (the code departs from the claim). When the search finds nothing (exit
  status 1, empty output), each of the three scans returns 1, not 0: the
  output split at line ends has one piece more than there are lines, and the
  scans return the number of pieces.
\<close>

theorem no_match_counts_one:
  "fst (count_fixmes_here silent_env empty_world) = Inr 1
   \<and> fst (count_deprecated_strings_here silent_env empty_world) = Inr 1
   \<and> fst (count_deprecated_files_here silent_env empty_world) = Inr 1"
  by (simp add: count_fixmes_here_def count_deprecated_strings_here_def count_deprecated_files_here_def
       subprocess_run_def silent_env_def empty_world_def)

end
